theory Spec2Isabelle
  imports Complex_Main
begin

section \<open>Floating-point values\<close>

text \<open>
  The optimizers compute with numpy's \<open>float64\<close>. A value is modelled as an exact real
  number or one of the three special values of the format. Rounding, overflow and the
  sign of zero are not modelled: a finite result is the exact real result, and a zero
  divisor counts as \<open>+0.0\<close>. numpy's arithmetic never raises on these values (it
  warns and returns \<open>nan\<close> or \<open>inf\<close>), so every operation below is total.
\<close>

datatype fl = Fin real | PInf | NInf | NaN

fun is_finite :: "fl \<Rightarrow> bool" where
  "is_finite (Fin a) = True"
| "is_finite PInf = False"
| "is_finite NInf = False"
| "is_finite NaN = False"

fun fl_neg :: "fl \<Rightarrow> fl" where
  "fl_neg (Fin a) = Fin (- a)"
| "fl_neg PInf = NInf"
| "fl_neg NInf = PInf"
| "fl_neg NaN = NaN"

fun fl_add :: "fl \<Rightarrow> fl \<Rightarrow> fl" where
  "fl_add (Fin a) (Fin b) = Fin (a + b)"
| "fl_add NaN b = NaN"
| "fl_add a NaN = NaN"
| "fl_add PInf NInf = NaN"
| "fl_add NInf PInf = NaN"
| "fl_add PInf b = PInf"
| "fl_add a PInf = PInf"
| "fl_add NInf b = NInf"
| "fl_add a NInf = NInf"

definition fl_sub :: "fl \<Rightarrow> fl \<Rightarrow> fl" where
  "fl_sub a b = fl_add a (fl_neg b)"

fun fl_mul :: "fl \<Rightarrow> fl \<Rightarrow> fl" where
  "fl_mul (Fin a) (Fin b) = Fin (a * b)"
| "fl_mul NaN b = NaN"
| "fl_mul a NaN = NaN"
| "fl_mul PInf (Fin b) = (if b = 0 then NaN else if 0 < b then PInf else NInf)"
| "fl_mul NInf (Fin b) = (if b = 0 then NaN else if 0 < b then NInf else PInf)"
| "fl_mul (Fin a) PInf = (if a = 0 then NaN else if 0 < a then PInf else NInf)"
| "fl_mul (Fin a) NInf = (if a = 0 then NaN else if 0 < a then NInf else PInf)"
| "fl_mul PInf PInf = PInf"
| "fl_mul PInf NInf = NInf"
| "fl_mul NInf PInf = NInf"
| "fl_mul NInf NInf = PInf"

fun fl_div :: "fl \<Rightarrow> fl \<Rightarrow> fl" where
  "fl_div (Fin a) (Fin b) =
     (if b = 0 then (if a = 0 then NaN else if 0 < a then PInf else NInf)
      else Fin (a / b))"
| "fl_div NaN b = NaN"
| "fl_div a NaN = NaN"
| "fl_div (Fin a) PInf = Fin 0"
| "fl_div (Fin a) NInf = Fin 0"
| "fl_div PInf (Fin b) = (if 0 \<le> b then PInf else NInf)"
| "fl_div NInf (Fin b) = (if 0 \<le> b then NInf else PInf)"
| "fl_div PInf PInf = NaN"
| "fl_div PInf NInf = NaN"
| "fl_div NInf PInf = NaN"
| "fl_div NInf NInf = NaN"

text \<open>\<open>np.sqrt\<close>: a negative argument gives \<open>nan\<close> (with a warning), not an exception.\<close>

fun np_sqrt :: "fl \<Rightarrow> fl" where
  "np_sqrt (Fin a) = (if a < 0 then NaN else Fin (sqrt a))"
| "np_sqrt PInf = PInf"
| "np_sqrt NInf = NaN"
| "np_sqrt NaN = NaN"

section \<open>Errors and numpy/pandas primitives\<close>

text \<open>
  \<open>ValueError\<close> is the exception the optimizers raise themselves. The other three stand
  for exceptions raised inside numpy, pandas or the interpreter, whose message text is
  not modelled: \<open>ShapeError\<close> for operands whose shapes do not fit, \<open>SamplesError\<close> for a
  negative sample count given to \<open>np.linspace\<close>, \<open>NoneTypeError\<close> for arithmetic on
  \<open>None\<close>.
\<close>

datatype error = ValueError string | ShapeError | SamplesError | NoneTypeError

definition bind :: "error + 'a \<Rightarrow> ('a \<Rightarrow> error + 'b) \<Rightarrow> error + 'b" where
  "bind m f = (case m of Inl e \<Rightarrow> Inl e | Inr v \<Rightarrow> f v)"

text \<open>
  A \<open>pd.DataFrame\<close>: its column labels and its rows. pandas keeps every row as long as
  the list of columns (\<open>wf_frame\<close>); the frame need not be square.
\<close>

record DataFrame =
  columns :: "string list"
  rows :: "fl list list"

definition wf_frame :: "DataFrame \<Rightarrow> bool" where
  "wf_frame df = list_all (\<lambda>r. length r = length (columns df)) (rows df)"

text \<open>A \<open>pd.Series\<close> as the optimizers return it: labels and values of the same length.\<close>

record Series =
  index :: "string list"
  vals :: "fl list"

definition np_sum :: "fl list \<Rightarrow> fl" where
  "np_sum xs = foldl fl_add (Fin 0) xs"

definition fl_dot :: "fl list \<Rightarrow> fl list \<Rightarrow> fl" where
  "fl_dot xs ys = np_sum (map2 fl_mul xs ys)"

text \<open>\<open>np.dot\<close> of two vectors raises unless they have the same length.\<close>

definition np_dot :: "fl list \<Rightarrow> fl list \<Rightarrow> error + fl" where
  "np_dot xs ys = (if length xs \<noteq> length ys then Inl ShapeError else Inr (fl_dot xs ys))"

text \<open>\<open>np.dot(Sigma, w)\<close> and \<open>Sigma @ w\<close>: one entry per row; the column count must be
  the length of \<open>w\<close>.\<close>

definition mat_vec :: "DataFrame \<Rightarrow> fl list \<Rightarrow> error + fl list" where
  "mat_vec df w =
     (if length (columns df) \<noteq> length w then Inl ShapeError
      else Inr (map (\<lambda>r. fl_dot r w) (rows df)))"

text \<open>\<open>w.T @ Sigma\<close>: one entry per column; the row count must be the length of \<open>w\<close>.\<close>

definition vec_mat :: "fl list \<Rightarrow> DataFrame \<Rightarrow> error + fl list" where
  "vec_mat w df =
     (if length w \<noteq> length (rows df) then Inl ShapeError
      else Inr (map (\<lambda>j. fl_dot w (map (\<lambda>r. r ! j) (rows df))) [0..<length (columns df)]))"

text \<open>\<open>np.diag\<close> of a frame: the entries \<open>(i, i)\<close> for \<open>i\<close> below both dimensions.\<close>

definition np_diag :: "DataFrame \<Rightarrow> fl list" where
  "np_diag df = map (\<lambda>i. rows df ! i ! i) [0..<min (length (rows df)) (length (columns df))]"

text \<open>\<open>np.ones(n) / n\<close>.\<close>

definition uniform :: "nat \<Rightarrow> fl list" where
  "uniform n = replicate n (fl_div (Fin 1) (Fin (real n)))"

text \<open>
  \<open>np.linspace(start, stop, num)\<close> with the endpoint included, after numpy's
  \<open>function_base.linspace\<close>: a negative \<open>num\<close> raises; the samples are
  \<open>i * step + start\<close> with \<open>step = (stop - start) / (num - 1)\<close> (computed as
  \<open>(i / (num - 1)) * delta\<close> when the step is zero, and as \<open>i * delta\<close> when
  \<open>num \<le> 1\<close>), and for \<open>num > 1\<close> the last sample is overwritten with \<open>stop\<close>.
\<close>

definition np_linspace :: "fl \<Rightarrow> fl \<Rightarrow> int \<Rightarrow> error + fl list" where
  "np_linspace start stop num =
     (if num < 0 then Inl SamplesError
      else
        let n = nat num;
            dv = Fin (real_of_int (num - 1));
            delta = fl_sub stop start;
            y0 = map (\<lambda>i. Fin (real i)) [0..<n];
            y1 = (if 0 < num - 1 then
                    (let step = fl_div delta dv
                     in if step = Fin 0 then map (\<lambda>yi. fl_mul (fl_div yi dv) delta) y0
                        else map (\<lambda>yi. fl_mul yi step) y0)
                  else map (\<lambda>yi. fl_mul yi delta) y0);
            y2 = map (\<lambda>yi. fl_add yi start) y1
        in Inr (if 1 < num then y2[n - 1 := stop] else y2))"

section \<open>The constrained solver\<close>

text \<open>
  \<open>scipy.optimize.minimize(fun, x0, method='SLSQP', bounds=..., constraints=...)\<close> is
  not part of the repository. It is a parameter of every optimizer below: a function
  from the problem it is given to the result object the optimizers read
  (\<open>result.x\<close>, \<open>result.success\<close>, \<open>result.message\<close>). Every constraint in the source
  has type \<open>'eq'\<close>.
\<close>

record problem =
  objective :: "fl list \<Rightarrow> error + fl"
  x0 :: "fl list"
  bounds :: "(fl \<times> fl) list option"
  constraints :: "(fl list \<Rightarrow> error + fl) list"

record solver_result =
  res_x :: "fl list"
  res_success :: bool
  res_message :: string

type_synonym solver = "problem \<Rightarrow> solver_result"

text \<open>\<open>None if short_allowed else [(0.0, 1.0)] * n\<close>.\<close>

definition box_bounds :: "bool \<Rightarrow> nat \<Rightarrow> (fl \<times> fl) list option" where
  "box_bounds short_allowed n = (if short_allowed then None else Some (replicate n (Fin 0, Fin 1)))"

text \<open>\<open>lambda w: np.sum(w) - 1\<close>.\<close>

definition budget_constraint :: "fl list \<Rightarrow> error + fl" where
  "budget_constraint w = Inr (fl_sub (np_sum w) (Fin 1))"

section \<open>markowitz.py\<close>

record MarkowitzOptimizer =
  mu :: "fl list"
  Sigma :: DataFrame
  rf :: fl
  num_assets :: nat

text \<open>\<open>__init__(self, expected_returns, cov_matrix, risk_free_rate=0.0)\<close>; \<open>None\<close> for
  the rate stands for the omitted keyword.\<close>

definition MarkowitzOptimizer_init :: "fl list \<Rightarrow> DataFrame \<Rightarrow> fl option \<Rightarrow> MarkowitzOptimizer" where
  "MarkowitzOptimizer_init expected_returns cov_matrix risk_free_rate =
     \<lparr>mu = expected_returns, Sigma = cov_matrix,
      rf = (case risk_free_rate of None \<Rightarrow> Fin 0 | Some r \<Rightarrow> r),
      num_assets = length expected_returns\<rparr>"

text \<open>\<open>np.sqrt(np.dot(w.T, np.dot(self.Sigma, w)))\<close>, the objective of the minimum-variance
  solve and of every frontier point.\<close>

definition portfolio_volatility :: "MarkowitzOptimizer \<Rightarrow> fl list \<Rightarrow> error + fl" where
  "portfolio_volatility self w =
     bind (mat_vec (Sigma self) w) (\<lambda>sw. bind (np_dot w sw) (\<lambda>q. Inr (np_sqrt q)))"

text \<open>\<open>_portfolio_performance\<close>. The frontier passes it the result of a portfolio solve,
  which may be \<open>None\<close>; numpy then raises on the first product.\<close>

definition portfolio_performance :: "MarkowitzOptimizer \<Rightarrow> fl list option \<Rightarrow> error + fl \<times> fl" where
  "portfolio_performance self weights =
     (case weights of
        None \<Rightarrow> Inl NoneTypeError
      | Some w \<Rightarrow>
          bind (np_dot w (mu self)) (\<lambda>ret.
          bind (portfolio_volatility self w) (\<lambda>vol. Inr (ret, vol))))"

definition mvp_problem :: "MarkowitzOptimizer \<Rightarrow> bool \<Rightarrow> problem" where
  "mvp_problem self short_allowed =
     \<lparr>objective = portfolio_volatility self,
      x0 = uniform (num_assets self),
      bounds = box_bounds short_allowed (num_assets self),
      constraints = [budget_constraint]\<rparr>"

definition min_variance_portfolio :: "solver \<Rightarrow> MarkowitzOptimizer \<Rightarrow> bool \<Rightarrow> fl list option" where
  "min_variance_portfolio minimize self short_allowed =
     (let result = minimize (mvp_problem self short_allowed)
      in if res_success result then Some (res_x result) else None)"

definition neg_sharpe_ratio :: "MarkowitzOptimizer \<Rightarrow> fl list \<Rightarrow> error + fl" where
  "neg_sharpe_ratio self w =
     bind (portfolio_performance self (Some w)) (\<lambda>(ret, vol).
       Inr (fl_div (fl_neg (fl_sub ret (rf self))) vol))"

definition tangency_problem :: "MarkowitzOptimizer \<Rightarrow> bool \<Rightarrow> problem" where
  "tangency_problem self short_allowed =
     \<lparr>objective = neg_sharpe_ratio self,
      x0 = uniform (num_assets self),
      bounds = box_bounds short_allowed (num_assets self),
      constraints = [budget_constraint]\<rparr>"

definition tangency_portfolio :: "solver \<Rightarrow> MarkowitzOptimizer \<Rightarrow> bool \<Rightarrow> fl list option" where
  "tangency_portfolio minimize self short_allowed =
     (let result = minimize (tangency_problem self short_allowed)
      in if res_success result then Some (res_x result) else None)"

text \<open>The default grid of \<open>efficient_frontier\<close> (the branch \<open>return_range is None\<close>).
  Both portfolio solves are called without arguments, so with \<open>short_allowed=False\<close>
  whatever the frontier's own toggle is.\<close>

definition default_grid :: "solver \<Rightarrow> MarkowitzOptimizer \<Rightarrow> int \<Rightarrow> error + fl list" where
  "default_grid minimize self points =
     bind (portfolio_performance self (min_variance_portfolio minimize self False)) (\<lambda>(min_ret, v1).
     bind (portfolio_performance self (tangency_portfolio minimize self False)) (\<lambda>(max_ret, v2).
       np_linspace min_ret max_ret points))"

text \<open>The problem solved for one target return: the budget constraint and
  \<open>lambda w: np.dot(w, self.mu) - target_ret\<close>, from the uniform initial guess.\<close>

definition return_constraint :: "MarkowitzOptimizer \<Rightarrow> fl \<Rightarrow> fl list \<Rightarrow> error + fl" where
  "return_constraint self target_ret w =
     bind (np_dot w (mu self)) (\<lambda>r. Inr (fl_sub r target_ret))"

definition frontier_problem :: "MarkowitzOptimizer \<Rightarrow> bool \<Rightarrow> fl \<Rightarrow> problem" where
  "frontier_problem self short_allowed target_ret =
     \<lparr>objective = portfolio_volatility self,
      x0 = uniform (num_assets self),
      bounds = box_bounds short_allowed (num_assets self),
      constraints = [budget_constraint, return_constraint self target_ret]\<rparr>"

text \<open>The body of the loop \<open>for target_ret in return_range\<close>: the value appended to
  \<open>frontier_vols\<close> for one target return.\<close>

definition frontier_point :: "solver \<Rightarrow> MarkowitzOptimizer \<Rightarrow> bool \<Rightarrow> fl \<Rightarrow> error + fl" where
  "frontier_point minimize self short_allowed target_ret =
     (let result = minimize (frontier_problem self short_allowed target_ret)
      in if res_success result then portfolio_volatility self (res_x result)
         else Inr NaN)"

text \<open>The loop itself, with the list \<open>frontier_vols\<close> it appends to.\<close>

fun frontier_loop :: "solver \<Rightarrow> MarkowitzOptimizer \<Rightarrow> bool \<Rightarrow> fl list \<Rightarrow> fl list \<Rightarrow> error + fl list" where
  "frontier_loop minimize self short_allowed frontier_vols [] = Inr frontier_vols"
| "frontier_loop minimize self short_allowed frontier_vols (target_ret # rest) =
     bind (frontier_point minimize self short_allowed target_ret) (\<lambda>vol.
       frontier_loop minimize self short_allowed (frontier_vols @ [vol]) rest)"

text \<open>\<open>efficient_frontier(self, return_range=None, short_allowed=False, points=50)\<close>.\<close>

definition efficient_frontier ::
  "solver \<Rightarrow> MarkowitzOptimizer \<Rightarrow> fl list option \<Rightarrow> bool \<Rightarrow> int \<Rightarrow> error + fl list \<times> fl list" where
  "efficient_frontier minimize self return_range short_allowed points =
     bind (case return_range of
             None \<Rightarrow> default_grid minimize self points
           | Some g \<Rightarrow> Inr g) (\<lambda>grid.
     bind (frontier_loop minimize self short_allowed [] grid) (\<lambda>vols.
       Inr (grid, vols)))"

text \<open>The call \<open>efficient_frontier()\<close> with every keyword left at its default.\<close>

definition efficient_frontier_defaults :: "solver \<Rightarrow> MarkowitzOptimizer \<Rightarrow> error + fl list \<times> fl list" where
  "efficient_frontier_defaults minimize self = efficient_frontier minimize self None False 50"

section \<open>risk_parity.py\<close>

text \<open>
  \<open>w.T @ self.Sigma @ w\<close> is evaluated from the left: pandas forms the vector
  \<open>w.T @ Sigma\<close> (one entry per column, a Series) and then its product with \<open>w\<close>.
\<close>

definition quad_form_left :: "DataFrame \<Rightarrow> fl list \<Rightarrow> error + fl" where
  "quad_form_left df w = bind (vec_mat w df) (\<lambda>v. np_dot v w)"

text \<open>
  Arithmetic of a Series with an array (\<open>risk_contrib - self.risk_budget\<close>): elementwise
  for equal lengths, an array of length one is broadcast, any other length raises.
\<close>

definition series_sub :: "fl list \<Rightarrow> fl list \<Rightarrow> error + fl list" where
  "series_sub xs b =
     (if length b = length xs then Inr (map2 fl_sub xs b)
      else if length b = 1 then Inr (map (\<lambda>a. fl_sub a (hd b)) xs)
      else Inl ShapeError)"

text \<open>\<open>np.sum\<close> of a Series calls \<open>Series.sum\<close>, which skips \<open>nan\<close> entries
  (\<open>skipna=True\<close>).\<close>

definition series_sum :: "fl list \<Rightarrow> fl" where
  "series_sum xs = np_sum (filter (\<lambda>v. v \<noteq> NaN) xs)"

record RiskParityOptimizer =
  rp_Sigma :: DataFrame
  rp_assets :: "string list"
  rp_n :: nat
  risk_budget :: "fl list"

text \<open>\<open>__init__(self, cov_matrix, risk_budget=None)\<close>.\<close>

definition RiskParityOptimizer_init :: "DataFrame \<Rightarrow> fl list option \<Rightarrow> RiskParityOptimizer" where
  "RiskParityOptimizer_init cov_matrix budget =
     \<lparr>rp_Sigma = cov_matrix,
      rp_assets = columns cov_matrix,
      rp_n = length (columns cov_matrix),
      risk_budget = (case budget of None \<Rightarrow> uniform (length (columns cov_matrix)) | Some b \<Rightarrow> b)\<rparr>"

definition rp_portfolio_volatility :: "RiskParityOptimizer \<Rightarrow> fl list \<Rightarrow> error + fl" where
  "rp_portfolio_volatility self weights =
     bind (quad_form_left (rp_Sigma self) weights) (\<lambda>q. Inr (np_sqrt q))"

definition risk_contributions :: "RiskParityOptimizer \<Rightarrow> fl list \<Rightarrow> error + fl list" where
  "risk_contributions self weights =
     bind (rp_portfolio_volatility self weights) (\<lambda>portfolio_vol.
     bind (mat_vec (rp_Sigma self) weights) (\<lambda>marginal_contrib.
       let risk_contrib = map2 fl_mul weights marginal_contrib
       in Inr (map (\<lambda>c. fl_div c portfolio_vol) risk_contrib)))"

definition rp_objective :: "RiskParityOptimizer \<Rightarrow> fl list \<Rightarrow> error + fl" where
  "rp_objective self weights =
     bind (risk_contributions self weights) (\<lambda>risk_contrib.
     bind (series_sub risk_contrib (risk_budget self)) (\<lambda>d.
       Inr (series_sum (map (\<lambda>v. fl_mul v v) d))))"

definition rp_problem :: "RiskParityOptimizer \<Rightarrow> bool \<Rightarrow> problem" where
  "rp_problem self short_allowed =
     \<lparr>objective = rp_objective self,
      x0 = uniform (rp_n self),
      bounds = box_bounds short_allowed (rp_n self),
      constraints = [budget_constraint]\<rparr>"

text \<open>\<open>pd.Series(result.x, index=assets)\<close> raises unless there is one value per label.\<close>

definition pd_Series :: "fl list \<Rightarrow> string list \<Rightarrow> error + Series" where
  "pd_Series v labels =
     (if length v \<noteq> length labels then Inl ShapeError else Inr \<lparr>index = labels, vals = v\<rparr>)"

definition rp_optimize :: "solver \<Rightarrow> RiskParityOptimizer \<Rightarrow> bool \<Rightarrow> error + Series" where
  "rp_optimize minimize self short_allowed =
     (let result = minimize (rp_problem self short_allowed)
      in if res_success result then pd_Series (res_x result) (rp_assets self)
         else Inl (ValueError (''Optimization failed: '' @ res_message result)))"

section \<open>max_diversification.py\<close>

record MaxDiversificationOptimizer =
  md_Sigma :: DataFrame
  md_assets :: "string list"
  md_n :: nat
  sigma_individual :: "fl list"

definition MaxDiversificationOptimizer_init :: "DataFrame \<Rightarrow> MaxDiversificationOptimizer" where
  "MaxDiversificationOptimizer_init cov_matrix =
     \<lparr>md_Sigma = cov_matrix,
      md_assets = columns cov_matrix,
      md_n = length (columns cov_matrix),
      sigma_individual = map np_sqrt (np_diag cov_matrix)\<rparr>"

definition md_portfolio_volatility :: "MaxDiversificationOptimizer \<Rightarrow> fl list \<Rightarrow> error + fl" where
  "md_portfolio_volatility self weights =
     bind (quad_form_left (md_Sigma self) weights) (\<lambda>q. Inr (np_sqrt q))"

definition diversification_ratio :: "MaxDiversificationOptimizer \<Rightarrow> fl list \<Rightarrow> error + fl" where
  "diversification_ratio self weights =
     bind (np_dot weights (sigma_individual self)) (\<lambda>weighted_vols.
     bind (md_portfolio_volatility self weights) (\<lambda>portfolio_vol.
       Inr (fl_div weighted_vols portfolio_vol)))"

definition neg_objective :: "MaxDiversificationOptimizer \<Rightarrow> fl list \<Rightarrow> error + fl" where
  "neg_objective self weights =
     bind (diversification_ratio self weights) (\<lambda>d. Inr (fl_neg d))"

definition md_problem :: "MaxDiversificationOptimizer \<Rightarrow> bool \<Rightarrow> problem" where
  "md_problem self short_allowed =
     \<lparr>objective = neg_objective self,
      x0 = uniform (md_n self),
      bounds = box_bounds short_allowed (md_n self),
      constraints = [budget_constraint]\<rparr>"

definition md_optimize :: "solver \<Rightarrow> MaxDiversificationOptimizer \<Rightarrow> bool \<Rightarrow> error + Series" where
  "md_optimize minimize self short_allowed =
     (let result = minimize (md_problem self short_allowed)
      in if res_success result then pd_Series (res_x result) (md_assets self)
         else Inl (ValueError (''Optimization failed: '' @ res_message result)))"

section \<open>Example inputs\<close>

text \<open>Stand-ins for the solver, used to run the optimizers on concrete inputs. The
  first never converges. The second returns the initial guess and reports success exactly
  when every constraint is already zero there.\<close>

definition example_failing_solver :: solver where
  "example_failing_solver p =
     \<lparr>res_x = x0 p, res_success = False, res_message = ''Iteration limit reached''\<rparr>"

definition example_feasible_solver :: solver where
  "example_feasible_solver p =
     \<lparr>res_x = x0 p,
      res_success = list_all (\<lambda>c. c (x0 p) = Inr (Fin 0)) (constraints p),
      res_message = ''Positive directional derivative for linesearch''\<rparr>"

definition example_cov :: DataFrame where
  "example_cov = \<lparr>columns = [''A'', ''B''], rows = [[Fin 4, Fin 0], [Fin 0, Fin 0]]\<rparr>"

definition example_markowitz :: MarkowitzOptimizer where
  "example_markowitz = MarkowitzOptimizer_init [Fin 1, Fin 3] example_cov None"

text \<open>A solver for two assets that compares the objective at the two single-asset
  portfolios and returns the better one.\<close>

definition example_vertex_solver :: solver where
  "example_vertex_solver p =
     (case (objective p [Fin 1, Fin 0], objective p [Fin 0, Fin 1]) of
        (Inr (Fin u), Inr (Fin v)) \<Rightarrow>
          \<lparr>res_x = (if u \<le> v then [Fin 1, Fin 0] else [Fin 0, Fin 1]),
           res_success = True,
           res_message = ''Optimization terminated successfully''\<rparr>
      | _ \<Rightarrow> \<lparr>res_x = x0 p, res_success = False, res_message = ''Iteration limit reached''\<rparr>)"

text \<open>A solver that takes the better single-asset portfolio when the budget constraint is
  the only one, and otherwise accepts the initial guess exactly when it is feasible.\<close>

definition example_mixed_solver :: solver where
  "example_mixed_solver p =
     (if length (constraints p) = 1 then example_vertex_solver p else example_feasible_solver p)"

definition example_markowitz2 :: MarkowitzOptimizer where
  "example_markowitz2 =
     MarkowitzOptimizer_init [Fin 1, Fin 3]
       \<lparr>columns = [''A'', ''B''], rows = [[Fin 1, Fin (- 1 / 2)], [Fin (- 1 / 2), Fin 4]]\<rparr> None"

text \<open>Expected returns below the risk-free rate: the tangency solve of the vertex solver
  then picks the asset with the lower return.\<close>

definition example_descending :: MarkowitzOptimizer where
  "example_descending =
     MarkowitzOptimizer_init [Fin 3, Fin 1]
       \<lparr>columns = [''A'', ''B''], rows = [[Fin 1, Fin 0], [Fin 0, Fin 4]]\<rparr> (Some (Fin 6))"

section \<open>The specification's formulas\<close>

text \<open>The grid as the specification words it: \<open>points\<close> values from \<open>min_ret\<close> to
  \<open>max_ret\<close> inclusive in \<open>points - 1\<close> equal steps; a single point is \<open>min_ret\<close>.\<close>

definition spec_even_grid :: "real \<Rightarrow> real \<Rightarrow> nat \<Rightarrow> fl list" where
  "spec_even_grid min_ret max_ret points =
     (if points = 1 then [Fin min_ret]
      else map (\<lambda>i. Fin (min_ret + real i * ((max_ret - min_ret) / real (points - 1)))) [0..<points])"

text \<open>Inputs with finite entries: a frame built from a real matrix, and the condition
  that the matrix is \<open>n\<close> by \<open>n\<close>.\<close>

definition frame_of :: "string list \<Rightarrow> real list list \<Rightarrow> DataFrame" where
  "frame_of cols S = \<lparr>columns = cols, rows = map (map Fin) S\<rparr>"

definition square :: "nat \<Rightarrow> real list list \<Rightarrow> bool" where
  "square n S \<longleftrightarrow> length S = n \<and> list_all (\<lambda>r. length r = n) S"

text \<open>The quantities of the specification over real numbers: the variance \<open>w\<^sup>T S w\<close>, the
  volatility, the risk contribution of asset \<open>i\<close>, the risk-parity objective for a budget
  \<open>b\<close>, and the negated diversification ratio.\<close>

definition spec_variance :: "real list list \<Rightarrow> real list \<Rightarrow> real" where
  "spec_variance S w = (\<Sum>i<length w. \<Sum>j<length w. w ! i * S ! i ! j * w ! j)"

definition spec_volatility :: "real list list \<Rightarrow> real list \<Rightarrow> real" where
  "spec_volatility S w = sqrt (spec_variance S w)"

definition spec_risk_contribution :: "real list list \<Rightarrow> real list \<Rightarrow> nat \<Rightarrow> real" where
  "spec_risk_contribution S w i =
     w ! i * (\<Sum>j<length w. S ! i ! j * w ! j) / spec_volatility S w"

definition spec_rp_objective :: "real list list \<Rightarrow> real list \<Rightarrow> real list \<Rightarrow> real" where
  "spec_rp_objective S w b = (\<Sum>i<length w. (spec_risk_contribution S w i - b ! i)\<^sup>2)"

definition spec_neg_diversification :: "real list list \<Rightarrow> real list \<Rightarrow> real" where
  "spec_neg_diversification S w =
     - (\<Sum>i<length w. w ! i * sqrt (S ! i ! i)) / spec_volatility S w"

section \<open>Basic facts\<close>

lemma bind_Inr [simp]: "bind (Inr v) f = f v"
  by (simp add: bind_def)

lemma bind_Inl [simp]: "bind (Inl e) f = Inl e"
  by (simp add: bind_def)

lemma bind_eq_Inr: "bind m f = Inr y \<longleftrightarrow> (\<exists>v. m = Inr v \<and> f v = Inr y)"
  by (cases m) simp_all

lemma length_uniform [simp]: "length (uniform n) = n"
  by (simp add: uniform_def)

lemmas example_defs =
  example_failing_solver_def example_feasible_solver_def example_cov_def example_markowitz_def
  MarkowitzOptimizer_init_def

lemmas markowitz_eval =
  efficient_frontier_def default_grid_def frontier_point_def frontier_problem_def
  mvp_problem_def tangency_problem_def min_variance_portfolio_def tangency_portfolio_def
  portfolio_performance_def portfolio_volatility_def neg_sharpe_ratio_def
  budget_constraint_def return_constraint_def box_bounds_def uniform_def
  np_dot_def mat_vec_def fl_dot_def np_sum_def fl_sub_def Let_def

section \<open>Minimum-variance and tangency solves\<close>

text \<open>
  Claim C3. When the solve reports no convergence, \<open>min_variance_portfolio\<close> and
  \<open>tangency_portfolio\<close> return \<open>None\<close>: no weight vector, and no exception (both are
  total functions into an option type, whatever the inputs and the short-selling toggle).
\<close>

theorem portfolio_solves_nonconvergence:
  "(\<not> res_success (minimize (mvp_problem self short_allowed))
      \<longrightarrow> min_variance_portfolio minimize self short_allowed = None) \<and>
   (\<not> res_success (minimize (tangency_problem self short_allowed))
      \<longrightarrow> tangency_portfolio minimize self short_allowed = None)"
  by (simp add: min_variance_portfolio_def tangency_portfolio_def Let_def)

theorem portfolio_solves_nonconvergence_witness:
  "\<not> res_success (example_failing_solver (mvp_problem example_markowitz True)) \<and>
   min_variance_portfolio example_failing_solver example_markowitz True = None \<and>
   \<not> res_success (example_failing_solver (tangency_problem example_markowitz True)) \<and>
   tangency_portfolio example_failing_solver example_markowitz True = None"
  using portfolio_solves_nonconvergence [of example_failing_solver example_markowitz True]
  by (simp add: example_failing_solver_def)

section \<open>The efficient frontier\<close>

lemma frontier_loop_entries:
  "frontier_loop minimize self sa acc grid = Inr out \<Longrightarrow>
     \<exists>vs. out = acc @ vs \<and> length vs = length grid \<and>
       (\<forall>i<length grid. frontier_point minimize self sa (grid ! i) = Inr (vs ! i))"
proof (induction grid arbitrary: acc)
  case Nil
  then show ?case by simp
next
  case (Cons r rest)
  from Cons.prems obtain v where v: "frontier_point minimize self sa r = Inr v"
    and rest: "frontier_loop minimize self sa (acc @ [v]) rest = Inr out"
    by (auto simp: bind_eq_Inr)
  from Cons.IH [OF rest] obtain vs where vs: "out = (acc @ [v]) @ vs" "length vs = length rest"
    "\<forall>i<length rest. frontier_point minimize self sa (rest ! i) = Inr (vs ! i)"
    by blast
  have "\<forall>i<length (r # rest). frontier_point minimize self sa ((r # rest) ! i) = Inr ((v # vs) ! i)"
    using v vs(3) by (auto simp: nth_Cons split: nat.splits)
  with vs(1,2) show ?case
    by (intro exI [of _ "v # vs"]) simp
qed

lemma frontier_loop_total:
  "\<forall>r\<in>set grid. \<exists>v. frontier_point minimize self sa r = Inr v \<Longrightarrow>
     \<exists>out. frontier_loop minimize self sa acc grid = Inr out"
proof (induction grid arbitrary: acc)
  case Nil
  then show ?case by simp
next
  case (Cons r rest)
  then obtain v where v: "frontier_point minimize self sa r = Inr v" by auto
  from Cons.IH [of "acc @ [v]"] Cons.prems v show ?case by simp
qed

lemma portfolio_volatility_square:
  assumes "length (columns (Sigma self)) = length w" "length (rows (Sigma self)) = length w"
  shows "portfolio_volatility self w =
           Inr (np_sqrt (fl_dot w (map (\<lambda>r. fl_dot r w) (rows (Sigma self)))))"
  using assms by (simp add: portfolio_volatility_def mat_vec_def np_dot_def)

lemma frontier_point_total:
  assumes "length (columns (Sigma self)) = num_assets self"
      and "length (rows (Sigma self)) = num_assets self"
      and "\<forall>p. length (res_x (minimize p)) = length (x0 p)"
  shows "\<exists>v. frontier_point minimize self sa r = Inr v"
proof -
  have "length (res_x (minimize (frontier_problem self sa r))) = num_assets self"
    using assms(3) by (simp add: frontier_problem_def)
  then show ?thesis
    using assms(1,2) by (simp add: frontier_point_def Let_def portfolio_volatility_square)
qed

text \<open>
  Claim C1 (as amended). Let the covariance frame be square of the optimizer's dimension
  and let the solver return a vector as long as its initial guess. For a grid given
  explicitly, or derived by \<open>default_grid\<close>, \<open>efficient_frontier\<close> returns that grid
  together with a volatility list of the same length, in the order of the grid: position
  \<open>i\<close> holds \<open>NaN\<close> when the solve for \<open>grid ! i\<close> did not converge, and the volatility
  of the solution otherwise. A failed point therefore never ends the sweep. The order is
  the grid's own, whether or not the grid ascends.
\<close>

theorem frontier_sweep_missing_entries:
  assumes "length (columns (Sigma self)) = num_assets self"
      and "length (rows (Sigma self)) = num_assets self"
      and "\<forall>p. length (res_x (minimize p)) = length (x0 p)"
      and "return_range = Some grid \<or>
           (return_range = None \<and> default_grid minimize self points = Inr grid)"
  shows "\<exists>vols. efficient_frontier minimize self return_range short_allowed points = Inr (grid, vols) \<and>
           length vols = length grid \<and>
           (\<forall>i<length grid.
              (\<not> res_success (minimize (frontier_problem self short_allowed (grid ! i)))
                 \<longrightarrow> vols ! i = NaN) \<and>
              (res_success (minimize (frontier_problem self short_allowed (grid ! i)))
                 \<longrightarrow> portfolio_volatility self
                       (res_x (minimize (frontier_problem self short_allowed (grid ! i)))) = Inr (vols ! i)))"
proof -
  have "\<forall>r\<in>set grid. \<exists>v. frontier_point minimize self short_allowed r = Inr v"
    using frontier_point_total [OF assms(1-3)] by blast
  then obtain out where out: "frontier_loop minimize self short_allowed [] grid = Inr out"
    using frontier_loop_total by blast
  from frontier_loop_entries [OF out] have len: "length out = length grid"
    and pts: "\<forall>i<length grid. frontier_point minimize self short_allowed (grid ! i) = Inr (out ! i)"
    by auto
  have ef: "efficient_frontier minimize self return_range short_allowed points = Inr (grid, out)"
    using assms(4) out by (auto simp: efficient_frontier_def)
  have "\<forall>i<length grid.
          (\<not> res_success (minimize (frontier_problem self short_allowed (grid ! i)))
             \<longrightarrow> out ! i = NaN) \<and>
          (res_success (minimize (frontier_problem self short_allowed (grid ! i)))
             \<longrightarrow> portfolio_volatility self
                   (res_x (minimize (frontier_problem self short_allowed (grid ! i)))) = Inr (out ! i))"
    using pts by (auto simp: frontier_point_def Let_def split: if_splits)
  with ef len show ?thesis by blast
qed

text \<open>On the example, the target 2 is met by the uniform guess and the target 5 is not:
  the sweep returns the volatility 1 and then a missing entry.\<close>

theorem frontier_sweep_missing_entries_witness:
  "length (columns (Sigma example_markowitz)) = num_assets example_markowitz \<and>
   length (rows (Sigma example_markowitz)) = num_assets example_markowitz \<and>
   (\<forall>p. length (res_x (example_feasible_solver p)) = length (x0 p)) \<and>
   res_success (example_feasible_solver (frontier_problem example_markowitz False (Fin 2))) \<and>
   \<not> res_success (example_feasible_solver (frontier_problem example_markowitz False (Fin 5))) \<and>
   efficient_frontier example_feasible_solver example_markowitz (Some [Fin 2, Fin 5]) False 50
     = Inr ([Fin 2, Fin 5], [Fin 1, NaN])"
  using frontier_sweep_missing_entries
    [of example_markowitz example_feasible_solver "Some [Fin 2, Fin 5]" "[Fin 2, Fin 5]" 50 False]
  by (simp add: example_defs markowitz_eval)

text \<open>The order need not ascend. With every expected return below the risk-free rate the
  tangency return (1) lies below the minimum-variance return (3): the derived grid, and
  with it the output, runs downwards.\<close>

theorem frontier_order_counterexample:
  "min_variance_portfolio example_vertex_solver example_descending False = Some [Fin 1, Fin 0] \<and>
   tangency_portfolio example_vertex_solver example_descending False = Some [Fin 0, Fin 1] \<and>
   efficient_frontier example_vertex_solver example_descending None False 3
     = Inr ([Fin 3, Fin 2, Fin 1], [Fin 1, Fin 1, Fin 1]) \<and>
   \<not> sorted [3, 2, 1 :: real]"
  by (simp add: example_vertex_solver_def example_descending_def MarkowitzOptimizer_init_def
      markowitz_eval np_linspace_def upt_conv_Cons)

text \<open>
  Claim C9. With no explicit grid, a minimum-variance or tangency solve that returns
  \<open>None\<close> makes \<open>efficient_frontier\<close> raise: the missing-entry rule covers the grid
  points only, not the two solves that fix the default grid's endpoints.
\<close>

theorem default_grid_failure_raises:
  assumes "min_variance_portfolio minimize self False = None
           \<or> tangency_portfolio minimize self False = None"
  shows "\<exists>e. efficient_frontier minimize self None short_allowed points = Inl e"
proof (cases "min_variance_portfolio minimize self False")
  case None
  then show ?thesis
    by (simp add: efficient_frontier_def default_grid_def portfolio_performance_def)
next
  case (Some w)
  with assms have tan: "tangency_portfolio minimize self False = None" by simp
  show ?thesis
  proof (cases "portfolio_performance self (Some w)")
    case (Inl e)
    then show ?thesis
      using Some by (simp add: efficient_frontier_def default_grid_def)
  next
    case (Inr pv)
    then show ?thesis
      using Some tan
      by (cases pv) (simp add: efficient_frontier_def default_grid_def portfolio_performance_def)
  qed
qed

theorem default_grid_failure_raises_witness:
  "min_variance_portfolio example_failing_solver example_markowitz False = None \<and>
   efficient_frontier example_failing_solver example_markowitz None True 50 = Inl NoneTypeError"
  using default_grid_failure_raises [of example_failing_solver example_markowitz True 50]
  by (simp add: example_defs markowitz_eval)

section \<open>Risk parity and maximum diversification: the result of optimize\<close>

text \<open>
  Claim C4. For an optimizer built from a covariance frame, and a solver that returns one
  value per asset, \<open>optimize\<close> of the risk-parity and of the max-diversification optimizer
  returns the solution as a Series labelled by the frame's columns, in their order, when
  the solve succeeds; when it does not, it raises \<open>ValueError\<close> with the text
  \<open>Optimization failed: \<close> followed by the solver's message.
\<close>

theorem optimize_raises_iff_failure:
  assumes "length (res_x (minimize (rp_problem rp short_allowed))) = rp_n rp"
      and "length (res_x (minimize (md_problem md short_allowed))) = md_n md"
      and "rp = RiskParityOptimizer_init cov budget"
      and "md = MaxDiversificationOptimizer_init cov"
  shows "(res_success (minimize (rp_problem rp short_allowed)) \<longrightarrow>
            rp_optimize minimize rp short_allowed =
              Inr \<lparr>index = columns cov, vals = res_x (minimize (rp_problem rp short_allowed))\<rparr>) \<and>
         (\<not> res_success (minimize (rp_problem rp short_allowed)) \<longrightarrow>
            rp_optimize minimize rp short_allowed =
              Inl (ValueError (''Optimization failed: '' @ res_message (minimize (rp_problem rp short_allowed))))) \<and>
         (res_success (minimize (md_problem md short_allowed)) \<longrightarrow>
            md_optimize minimize md short_allowed =
              Inr \<lparr>index = columns cov, vals = res_x (minimize (md_problem md short_allowed))\<rparr>) \<and>
         (\<not> res_success (minimize (md_problem md short_allowed)) \<longrightarrow>
            md_optimize minimize md short_allowed =
              Inl (ValueError (''Optimization failed: '' @ res_message (minimize (md_problem md short_allowed)))))"
  using assms
  by (simp add: rp_optimize_def md_optimize_def Let_def pd_Series_def
      RiskParityOptimizer_init_def MaxDiversificationOptimizer_init_def)

lemmas rp_md_eval =
  rp_optimize_def md_optimize_def rp_problem_def md_problem_def pd_Series_def
  RiskParityOptimizer_init_def MaxDiversificationOptimizer_init_def
  budget_constraint_def box_bounds_def uniform_def np_sum_def fl_sub_def Let_def

theorem optimize_raises_iff_failure_witness:
  "rp_optimize example_feasible_solver (RiskParityOptimizer_init example_cov None) False
     = Inr \<lparr>index = [''A'', ''B''], vals = [Fin (1 / 2), Fin (1 / 2)]\<rparr> \<and>
   md_optimize example_feasible_solver (MaxDiversificationOptimizer_init example_cov) False
     = Inr \<lparr>index = [''A'', ''B''], vals = [Fin (1 / 2), Fin (1 / 2)]\<rparr> \<and>
   rp_optimize example_failing_solver (RiskParityOptimizer_init example_cov None) False
     = Inl (ValueError ''Optimization failed: Iteration limit reached'') \<and>
   md_optimize example_failing_solver (MaxDiversificationOptimizer_init example_cov) False
     = Inl (ValueError ''Optimization failed: Iteration limit reached'')"
  using optimize_raises_iff_failure
    [of example_feasible_solver "RiskParityOptimizer_init example_cov None" False
        "MaxDiversificationOptimizer_init example_cov" example_cov None]
    optimize_raises_iff_failure
    [of example_failing_solver "RiskParityOptimizer_init example_cov None" False
        "MaxDiversificationOptimizer_init example_cov" example_cov None]
  by (simp add: example_defs rp_md_eval)

section \<open>The default grid\<close>

lemma np_linspace_finite:
  assumes "1 \<le> num"
  shows "np_linspace (Fin a) (Fin b) num =
           Inr (map (\<lambda>i. Fin (if num = 1 then a
                               else a + real i * (b - a) / real_of_int (num - 1)))
                 [0..<nat num])"
proof (cases "num = 1")
  case True
  then show ?thesis
    by (simp add: np_linspace_def fl_sub_def)
next
  case False
  with assms have gt: "1 < num" by simp
  define n where "n = nat num"
  have n: "real_of_int (num - 1) = real n - 1" "0 < n" "real n - 1 \<noteq> 0" "1 < n"
    using gt by (auto simp: n_def)
  have last: "a + real (n - 1) * (b - a) / (real n - 1) = b"
    using n by simp
  show ?thesis
  proof (cases "b = a")
    case True
    then show ?thesis
      using gt n unfolding np_linspace_def Let_def n_def [symmetric]
      by (simp add: fl_sub_def list_eq_iff_nth_eq nth_list_update)
  next
    case False
    then show ?thesis
      using gt n last unfolding np_linspace_def Let_def n_def [symmetric]
      by (auto simp add: fl_sub_def list_eq_iff_nth_eq nth_list_update algebra_simps)
  qed
qed

lemma np_linspace_spec:
  assumes "0 \<le> points"
  shows "np_linspace (Fin a) (Fin b) points = Inr (spec_even_grid a b (nat points))"
proof (cases "points = 0")
  case True
  then show ?thesis
    by (simp add: np_linspace_def spec_even_grid_def)
next
  case False
  with assms have pos: "1 \<le> points" by simp
  have "real_of_int (points - 1) = real (nat points - 1)"
    using pos by simp
  moreover have "nat points = 1 \<longleftrightarrow> points = 1"
    using pos by auto
  ultimately show ?thesis
    using pos by (simp add: np_linspace_finite spec_even_grid_def)
qed

lemma spec_even_grid_ends:
  "length (spec_even_grid a b n) = (if n = 1 then 1 else n)"
  "0 < n \<Longrightarrow> spec_even_grid a b n ! 0 = Fin a"
  "1 < n \<Longrightarrow> spec_even_grid a b n ! (n - 1) = Fin b"
  by (simp_all add: spec_even_grid_def)

lemma frontier_loop_pointwise:
  assumes "frontier_loop minimize self sa [] g1 = Inr o1"
      and "frontier_loop minimize self sa [] g2 = Inr o2"
      and "i < length g1" "j < length g2" "g1 ! i = g2 ! j"
  shows "o1 ! i = o2 ! j"
proof -
  from frontier_loop_entries [OF assms(1)] assms(3)
  have "frontier_point minimize self sa (g1 ! i) = Inr (o1 ! i)" by auto
  moreover from frontier_loop_entries [OF assms(2)] assms(4)
  have "frontier_point minimize self sa (g2 ! j) = Inr (o2 ! j)" by auto
  ultimately show ?thesis using assms(5) by simp
qed

lemma portfolio_performance_ret:
  "portfolio_performance self (Some w) = Inr (r, v) \<Longrightarrow> np_dot w (mu self) = Inr r"
  by (auto simp: portfolio_performance_def bind_eq_Inr)

lemma efficient_frontier_entries:
  assumes "efficient_frontier minimize self return_range short_allowed points = Inr (g, vols)"
      and "i < length g"
  shows "length vols = length g"
    and "let result = minimize
               \<lparr>objective = portfolio_volatility self,
                x0 = uniform (num_assets self),
                bounds = box_bounds short_allowed (num_assets self),
                constraints = [budget_constraint, return_constraint self (g ! i)]\<rparr>
         in Inr (vols ! i) =
              (if res_success result then portfolio_volatility self (res_x result) else Inr NaN)"
proof -
  from assms(1) have loop: "frontier_loop minimize self short_allowed [] g = Inr vols"
    by (auto simp: efficient_frontier_def bind_eq_Inr)
  from frontier_loop_entries [OF loop] have len: "length vols = length g"
    and pts: "\<forall>i<length g. frontier_point minimize self short_allowed (g ! i) = Inr (vols ! i)"
    by auto
  show "length vols = length g" by (rule len)
  from pts assms(2) have "frontier_point minimize self short_allowed (g ! i) = Inr (vols ! i)"
    by simp
  then show "let result = minimize
               \<lparr>objective = portfolio_volatility self,
                x0 = uniform (num_assets self),
                bounds = box_bounds short_allowed (num_assets self),
                constraints = [budget_constraint, return_constraint self (g ! i)]\<rparr>
         in Inr (vols ! i) =
              (if res_success result then portfolio_volatility self (res_x result) else Inr NaN)"
    by (simp add: frontier_point_def frontier_problem_def Let_def)
qed

lemma length_spec_even_grid: "length (spec_even_grid a b n) = n"
  by (simp add: spec_even_grid_def)

text \<open>
  Claim C2. Without an explicit grid, when both endpoint solves converge with finite
  expected returns \<open>min_ret\<close> (minimum-variance portfolio) and \<open>max_ret\<close> (tangency
  portfolio) and \<open>points\<close> is not negative, the grid swept is the evenly spaced grid of \<open>points\<close>
  values from \<open>min_ret\<close> to \<open>max_ret\<close> inclusive (just \<open>min_ret\<close> for one point);
  \<open>points\<close> is 50 when every keyword is left at its default. Whenever the call returns,
  the entry at position \<open>i\<close> is what the solver yields for the problem of the \<open>i\<close>-th
  grid value posed with the uniform vector \<open>np.ones(n) / n\<close> as initial guess: the
  volatility of the solution it reports, or \<open>NaN\<close> when it reports no success. No entry
  uses another point's solution, and the entry computed for a target return is the same
  in whatever grid and position the target occurs.
\<close>

theorem default_grid_evenly_spaced:
  assumes "min_variance_portfolio minimize self False = Some w_mvp"
      and "tangency_portfolio minimize self False = Some w_tan"
      and "portfolio_performance self (Some w_mvp) = Inr (Fin min_ret, v1)"
      and "portfolio_performance self (Some w_tan) = Inr (Fin max_ret, v2)"
      and "0 \<le> points"
  shows "np_dot w_mvp (mu self) = Inr (Fin min_ret) \<and>
         np_dot w_tan (mu self) = Inr (Fin max_ret) \<and>
         default_grid minimize self points = Inr (spec_even_grid min_ret max_ret (nat points)) \<and>
         efficient_frontier minimize self None short_allowed points =
           bind (frontier_loop minimize self short_allowed [] (spec_even_grid min_ret max_ret (nat points)))
             (\<lambda>vols. Inr (spec_even_grid min_ret max_ret (nat points), vols)) \<and>
         efficient_frontier_defaults minimize self = efficient_frontier minimize self None False 50 \<and>
         (\<forall>r. x0 (frontier_problem self short_allowed r) = uniform (num_assets self)) \<and>
         (\<forall>g1 g2 o1 o2 i j.
            frontier_loop minimize self short_allowed [] g1 = Inr o1 \<and>
            frontier_loop minimize self short_allowed [] g2 = Inr o2 \<and>
            i < length g1 \<and> j < length g2 \<and> g1 ! i = g2 ! j \<longrightarrow> o1 ! i = o2 ! j) \<and>
         (\<forall>vols i.
            efficient_frontier minimize self None short_allowed points
              = Inr (spec_even_grid min_ret max_ret (nat points), vols) \<and> i < nat points \<longrightarrow>
            length vols = nat points \<and>
            (let result = minimize
                   \<lparr>objective = portfolio_volatility self,
                    x0 = uniform (num_assets self),
                    bounds = box_bounds short_allowed (num_assets self),
                    constraints = [budget_constraint,
                      return_constraint self (spec_even_grid min_ret max_ret (nat points) ! i)]\<rparr>
             in Inr (vols ! i) =
                  (if res_success result then portfolio_volatility self (res_x result)
                   else Inr NaN)))"
proof -
  have grid: "default_grid minimize self points = Inr (spec_even_grid min_ret max_ret (nat points))"
    using assms by (simp add: default_grid_def np_linspace_spec)
  have ef: "efficient_frontier minimize self None short_allowed points =
           bind (frontier_loop minimize self short_allowed [] (spec_even_grid min_ret max_ret (nat points)))
             (\<lambda>vols. Inr (spec_even_grid min_ret max_ret (nat points), vols))"
    using grid by (simp add: efficient_frontier_def)
  have indep: "\<forall>g1 g2 o1 o2 i j.
            frontier_loop minimize self short_allowed [] g1 = Inr o1 \<and>
            frontier_loop minimize self short_allowed [] g2 = Inr o2 \<and>
            i < length g1 \<and> j < length g2 \<and> g1 ! i = g2 ! j \<longrightarrow> o1 ! i = o2 ! j"
    using frontier_loop_pointwise by blast
  have dflt: "efficient_frontier_defaults minimize self = efficient_frontier minimize self None False 50"
    by (simp add: efficient_frontier_defaults_def)
  have x0: "\<forall>r. x0 (frontier_problem self short_allowed r) = uniform (num_assets self)"
    by (simp add: frontier_problem_def)
  have entries: "\<forall>vols i.
            efficient_frontier minimize self None short_allowed points
              = Inr (spec_even_grid min_ret max_ret (nat points), vols) \<and> i < nat points \<longrightarrow>
            length vols = nat points \<and>
            (let result = minimize
                   \<lparr>objective = portfolio_volatility self,
                    x0 = uniform (num_assets self),
                    bounds = box_bounds short_allowed (num_assets self),
                    constraints = [budget_constraint,
                      return_constraint self (spec_even_grid min_ret max_ret (nat points) ! i)]\<rparr>
             in Inr (vols ! i) =
                  (if res_success result then portfolio_volatility self (res_x result)
                   else Inr NaN))"
  proof (intro allI impI)
    fix vols i
    assume a: "efficient_frontier minimize self None short_allowed points
              = Inr (spec_even_grid min_ret max_ret (nat points), vols) \<and> i < nat points"
    then have i: "i < length (spec_even_grid min_ret max_ret (nat points))"
      by (simp add: length_spec_even_grid)
    from efficient_frontier_entries [OF a [THEN conjunct1] i]
    show "length vols = nat points \<and>
            (let result = minimize
                   \<lparr>objective = portfolio_volatility self,
                    x0 = uniform (num_assets self),
                    bounds = box_bounds short_allowed (num_assets self),
                    constraints = [budget_constraint,
                      return_constraint self (spec_even_grid min_ret max_ret (nat points) ! i)]\<rparr>
             in Inr (vols ! i) =
                  (if res_success result then portfolio_volatility self (res_x result)
                   else Inr NaN))"
      by (simp only: length_spec_even_grid)
  qed
  from portfolio_performance_ret [OF assms(3)] portfolio_performance_ret [OF assms(4)]
    grid ef dflt x0 indep entries
  show ?thesis by (intro conjI)
qed

lemmas example2_defs =
  example_mixed_solver_def example_vertex_solver_def example_feasible_solver_def
  example_markowitz2_def MarkowitzOptimizer_init_def

text \<open>On the example the grid is 1, 2, 3. The uniform guess has return 2, so the solver
  accepts it for the target 2 only: that entry is the volatility of the uniform portfolio,
  and the other two are missing.\<close>

theorem default_grid_evenly_spaced_witness:
  "min_variance_portfolio example_mixed_solver example_markowitz2 False = Some [Fin 1, Fin 0] \<and>
   tangency_portfolio example_mixed_solver example_markowitz2 False = Some [Fin 0, Fin 1] \<and>
   portfolio_performance example_markowitz2 (Some [Fin 1, Fin 0]) = Inr (Fin 1, Fin 1) \<and>
   portfolio_performance example_markowitz2 (Some [Fin 0, Fin 1]) = Inr (Fin 3, Fin 2) \<and>
   (0::int) \<le> 3 \<and>
   default_grid example_mixed_solver example_markowitz2 3 = Inr [Fin 1, Fin 2, Fin 3] \<and>
   res_x (example_mixed_solver (frontier_problem example_markowitz2 True (Fin 2)))
     = [Fin (1 / 2), Fin (1 / 2)] \<and>
   efficient_frontier example_mixed_solver example_markowitz2 None True 3
     = Inr ([Fin 1, Fin 2, Fin 3], [NaN, Fin 1, NaN])"
proof -
  have h1: "min_variance_portfolio example_mixed_solver example_markowitz2 False = Some [Fin 1, Fin 0]"
    by (simp add: example2_defs markowitz_eval)
  have h2: "tangency_portfolio example_mixed_solver example_markowitz2 False = Some [Fin 0, Fin 1]"
    by (simp add: example2_defs markowitz_eval)
  have h3: "portfolio_performance example_markowitz2 (Some [Fin 1, Fin 0]) = Inr (Fin 1, Fin 1)"
    by (simp add: example2_defs markowitz_eval)
  have h4: "portfolio_performance example_markowitz2 (Some [Fin 0, Fin 1]) = Inr (Fin 3, Fin 2)"
    by (simp add: example2_defs markowitz_eval)
  have h5: "(0::int) \<le> 3" by simp
  have grid: "spec_even_grid 1 3 (nat 3) = [Fin 1, Fin 2, Fin 3]"
    by (simp add: spec_even_grid_def upt_conv_Cons)
  have loop: "frontier_loop example_mixed_solver example_markowitz2 True [] [Fin 1, Fin 2, Fin 3]
                = Inr [NaN, Fin 1, NaN]"
    by (simp add: example2_defs markowitz_eval)
  have x: "res_x (example_mixed_solver (frontier_problem example_markowitz2 True (Fin 2)))
             = [Fin (1 / 2), Fin (1 / 2)]"
    by (simp add: example2_defs markowitz_eval)
  note inst = default_grid_evenly_spaced [OF h1 h2 h3 h4 h5, of True]
  have g: "default_grid example_mixed_solver example_markowitz2 3 = Inr [Fin 1, Fin 2, Fin 3]"
    using inst [THEN conjunct2, THEN conjunct2, THEN conjunct1] unfolding grid .
  have e: "efficient_frontier example_mixed_solver example_markowitz2 None True 3
           = Inr ([Fin 1, Fin 2, Fin 3], [NaN, Fin 1, NaN])"
    using inst [THEN conjunct2, THEN conjunct2, THEN conjunct2, THEN conjunct1]
    unfolding grid loop by simp
  from h1 h2 h3 h4 g x e show ?thesis by simp
qed

section \<open>Finite inputs: the code computes the specification's formulas\<close>

lemma foldl_fl_add_Fin: "foldl fl_add (Fin a) (map Fin xs) = Fin (a + sum_list xs)"
  by (induction xs arbitrary: a) (simp_all add: add.assoc)

lemma np_sum_Fin: "np_sum (map Fin xs) = Fin (sum_list xs)"
  by (simp add: np_sum_def foldl_fl_add_Fin)

lemma fin_list:
  assumes "length xs = n" "\<forall>i<n. xs ! i = Fin (f i)"
  shows "xs = map Fin (map f [0..<n])"
  using assms by (simp add: list_eq_iff_nth_eq)

lemma np_sum_fin_nth:
  assumes "length xs = n" "\<forall>i<n. xs ! i = Fin (f i)"
  shows "np_sum xs = Fin (\<Sum>i<n. f i)"
proof -
  have "np_sum xs = Fin (sum_list (map f [0..<n]))"
    unfolding fin_list [OF assms] by (rule np_sum_Fin)
  then show ?thesis
    by (simp add: sum_list_sum_nth atLeast0LessThan)
qed

lemma fl_dot_fin_nth:
  assumes "length xs = n" "length ys = n"
      and "\<forall>i<n. xs ! i = Fin (f i)" "\<forall>i<n. ys ! i = Fin (g i)"
  shows "fl_dot xs ys = Fin (\<Sum>i<n. f i * g i)"
  unfolding fl_dot_def
  by (rule np_sum_fin_nth) (use assms in simp_all)

lemma square_nth: "square n S \<Longrightarrow> i < n \<Longrightarrow> length (S ! i) = n"
  by (simp add: square_def list_all_length)

lemma square_length: "square n S \<Longrightarrow> length S = n"
  by (simp add: square_def)

lemma mat_vec_Fin:
  assumes "square n S" "length w = n" "length cols = n"
  shows "\<exists>v. mat_vec (frame_of cols S) (map Fin w) = Inr v \<and> length v = n \<and>
           (\<forall>i<n. v ! i = Fin (\<Sum>j<n. S ! i ! j * w ! j))"
proof -
  have "fl_dot (map Fin (S ! i)) (map Fin w) = Fin (\<Sum>j<n. S ! i ! j * w ! j)" if "i < n" for i
    by (rule fl_dot_fin_nth) (use that assms square_nth [OF assms(1) that] in simp_all)
  then show ?thesis
    using assms square_length [OF assms(1)] by (simp add: mat_vec_def frame_of_def)
qed

lemma vec_mat_Fin:
  assumes "square n S" "length w = n" "length cols = n"
  shows "\<exists>v. vec_mat (map Fin w) (frame_of cols S) = Inr v \<and> length v = n \<and>
           (\<forall>j<n. v ! j = Fin (\<Sum>i<n. w ! i * S ! i ! j))"
proof -
  have len: "length S = n" by (rule square_length [OF assms(1)])
  have "fl_dot (map Fin w) (map (\<lambda>r. r ! j) (map (map Fin) S)) = Fin (\<Sum>i<n. w ! i * S ! i ! j)"
    if "j < n" for j
    by (rule fl_dot_fin_nth) (use that assms len square_nth [OF assms(1)] in simp_all)
  then show ?thesis
    using assms len by (simp add: vec_mat_def frame_of_def)
qed

lemma quad_form_left_Fin:
  assumes "square n S" "length w = n" "length cols = n"
  shows "quad_form_left (frame_of cols S) (map Fin w) = Inr (Fin (spec_variance S w))"
proof -
  from vec_mat_Fin [OF assms] obtain v where v: "vec_mat (map Fin w) (frame_of cols S) = Inr v"
    "length v = n" "\<forall>j<n. v ! j = Fin (\<Sum>i<n. w ! i * S ! i ! j)" by blast
  have "fl_dot v (map Fin w) = Fin (\<Sum>j<n. (\<Sum>i<n. w ! i * S ! i ! j) * w ! j)"
    by (rule fl_dot_fin_nth) (use v assms in simp_all)
  moreover have "(\<Sum>j<n. (\<Sum>i<n. w ! i * S ! i ! j) * w ! j) = (\<Sum>i<n. \<Sum>j<n. w ! i * S ! i ! j * w ! j)"
    by (subst sum.swap) (simp add: sum_distrib_right)
  ultimately show ?thesis
    using v assms by (simp add: quad_form_left_def np_dot_def spec_variance_def)
qed

lemma quad_form_right_Fin:
  assumes "square n S" "length w = n" "length cols = n"
  shows "bind (mat_vec (frame_of cols S) (map Fin w)) (\<lambda>sw. np_dot (map Fin w) sw)
           = Inr (Fin (spec_variance S w))"
proof -
  from mat_vec_Fin [OF assms] obtain v where v: "mat_vec (frame_of cols S) (map Fin w) = Inr v"
    "length v = n" "\<forall>i<n. v ! i = Fin (\<Sum>j<n. S ! i ! j * w ! j)" by blast
  have "fl_dot (map Fin w) v = Fin (\<Sum>i<n. w ! i * (\<Sum>j<n. S ! i ! j * w ! j))"
    by (rule fl_dot_fin_nth) (use v assms in simp_all)
  moreover have "(\<Sum>i<n. w ! i * (\<Sum>j<n. S ! i ! j * w ! j)) = (\<Sum>i<n. \<Sum>j<n. w ! i * S ! i ! j * w ! j)"
    by (simp add: sum_distrib_left mult.assoc)
  ultimately show ?thesis
    using v assms by (simp add: np_dot_def spec_variance_def)
qed

lemma fl_div_zero_not_finite: "\<not> is_finite (fl_div y (Fin 0))"
  by (cases y) simp_all

lemma filter_fin:
  assumes "\<forall>i<length xs. xs ! i = Fin (f i)"
  shows "filter (\<lambda>v. v \<noteq> NaN) xs = xs"
proof -
  have "\<forall>x\<in>set xs. x \<noteq> NaN"
    using assms by (auto simp: in_set_conv_nth)
  then show ?thesis by simp
qed

lemma series_sum_fin_nth:
  assumes "length xs = n" "\<forall>i<n. xs ! i = Fin (f i)"
  shows "series_sum xs = Fin (\<Sum>i<n. f i)"
  unfolding series_sum_def using filter_fin [of xs f] assms
  by (simp add: np_sum_fin_nth [OF assms])

lemma markowitz_volatility_fin:
  assumes "square n S" "length w = n" "length cols = n" "Sigma self = frame_of cols S"
  shows "portfolio_volatility self (map Fin w) = Inr (np_sqrt (Fin (spec_variance S w)))"
proof -
  from quad_form_right_Fin [OF assms(1-3)] show ?thesis
    by (auto simp: portfolio_volatility_def assms(4) bind_eq_Inr)
qed

lemma left_volatility_fin:
  assumes "square n S" "length w = n" "length cols = n"
  shows "bind (quad_form_left (frame_of cols S) (map Fin w)) (\<lambda>q. Inr (np_sqrt q))
           = Inr (np_sqrt (Fin (spec_variance S w)))"
  by (simp add: quad_form_left_Fin [OF assms])

lemma risk_contributions_fin:
  assumes "square n S" "length w = n" "length cols = n" "rp_Sigma self = frame_of cols S"
  shows "\<exists>rc. risk_contributions self (map Fin w) = Inr rc \<and> length rc = n \<and>
           (\<forall>i<n. rc ! i = fl_div (Fin (w ! i * (\<Sum>j<n. S ! i ! j * w ! j)))
                                  (np_sqrt (Fin (spec_variance S w))))"
proof -
  from mat_vec_Fin [OF assms(1-3)] obtain v where v: "mat_vec (frame_of cols S) (map Fin w) = Inr v"
    "length v = n" "\<forall>i<n. v ! i = Fin (\<Sum>j<n. S ! i ! j * w ! j)" by blast
  show ?thesis
    using v assms(2)
    by (simp add: risk_contributions_def rp_portfolio_volatility_def assms(4)
        left_volatility_fin [OF assms(1-3)] Let_def)
qed

lemma rp_objective_fin:
  assumes "square n S" "length w = n" "length cols = n" "length b = n"
      and "0 < spec_variance S w"
      and "rp_Sigma self = frame_of cols S" "risk_budget self = map Fin b"
  shows "rp_objective self (map Fin w) = Inr (Fin (spec_rp_objective S w b))"
proof -
  from risk_contributions_fin [OF assms(1-3,6)] obtain rc where
    rc: "risk_contributions self (map Fin w) = Inr rc" "length rc = n"
    "\<forall>i<n. rc ! i = fl_div (Fin (w ! i * (\<Sum>j<n. S ! i ! j * w ! j)))
                           (np_sqrt (Fin (spec_variance S w)))" by blast
  have pos: "sqrt (spec_variance S w) \<noteq> 0" using assms(5) by simp
  have rc_fin: "\<forall>i<n. rc ! i = Fin (spec_risk_contribution S w i)"
    using rc(3) assms(2,5) pos
    by (simp add: spec_risk_contribution_def spec_volatility_def)
  define d where "d = map (\<lambda>v. fl_mul v v) (map2 fl_sub rc (map Fin b))"
  have d: "length d = n" "\<forall>i<n. d ! i = Fin ((spec_risk_contribution S w i - b ! i)\<^sup>2)"
    using rc(2) rc_fin assms(4) by (simp_all add: d_def fl_sub_def power2_eq_square)
  have "series_sum d = Fin (\<Sum>i<n. (spec_risk_contribution S w i - b ! i)\<^sup>2)"
    by (rule series_sum_fin_nth [OF d])
  then show ?thesis
    using rc(1,2) assms(2,4)
    by (simp add: rp_objective_def assms(7) series_sub_def d_def spec_rp_objective_def)
qed

section \<open>Negative radicands and zero volatility\<close>

text \<open>
  Claim C5 (as amended). For finite weights and a finite square covariance frame of the
  same dimension, the volatility of \<open>markowitz.py\<close> and of \<open>max_diversification.py\<close> is
  \<open>sqrt (w\<^sup>T S w)\<close> when the radicand is not negative; for a negative radicand the
  result is \<open>NaN\<close>, returned to the caller as an ordinary value. No error is raised.
\<close>

theorem volatility_nan_on_negative_radicand:
  assumes "square n S" "length w = n" "length cols = n"
  shows "portfolio_volatility (MarkowitzOptimizer_init expected_returns (frame_of cols S) rate) (map Fin w)
           = Inr (if spec_variance S w < 0 then NaN else Fin (sqrt (spec_variance S w))) \<and>
         md_portfolio_volatility (MaxDiversificationOptimizer_init (frame_of cols S)) (map Fin w)
           = Inr (if spec_variance S w < 0 then NaN else Fin (sqrt (spec_variance S w))) \<and>
         (length expected_returns = n \<longrightarrow>
           portfolio_performance (MarkowitzOptimizer_init expected_returns (frame_of cols S) rate)
               (Some (map Fin w))
             = Inr (fl_dot (map Fin w) expected_returns,
                    if spec_variance S w < 0 then NaN else Fin (sqrt (spec_variance S w))))"
proof -
  have m: "portfolio_volatility (MarkowitzOptimizer_init expected_returns (frame_of cols S) rate) (map Fin w)
           = Inr (if spec_variance S w < 0 then NaN else Fin (sqrt (spec_variance S w)))"
    using markowitz_volatility_fin [OF assms, of "MarkowitzOptimizer_init expected_returns (frame_of cols S) rate"]
    by (simp add: MarkowitzOptimizer_init_def)
  have d: "md_portfolio_volatility (MaxDiversificationOptimizer_init (frame_of cols S)) (map Fin w)
           = Inr (if spec_variance S w < 0 then NaN else Fin (sqrt (spec_variance S w)))"
    using left_volatility_fin [OF assms]
    by (simp add: md_portfolio_volatility_def MaxDiversificationOptimizer_init_def)
  have p: "length expected_returns = n \<longrightarrow>
           portfolio_performance (MarkowitzOptimizer_init expected_returns (frame_of cols S) rate)
               (Some (map Fin w))
             = Inr (fl_dot (map Fin w) expected_returns,
                    if spec_variance S w < 0 then NaN else Fin (sqrt (spec_variance S w)))"
    using assms(2) by (simp add: portfolio_performance_def m) (simp add: np_dot_def MarkowitzOptimizer_init_def)
  from m d p show ?thesis by (intro conjI)
qed

text \<open>
  Claim C6 (as amended). For finite inputs of matching dimension whose portfolio variance
  is exactly zero, the ratio computations divide without any check: \<open>_risk_contributions\<close>
  returns a vector whose entries are all \<open>NaN\<close> or infinite, \<open>neg_sharpe_ratio\<close> returns
  \<open>NaN\<close> or an infinity, and neither raises an error.
\<close>

theorem zero_volatility_ratios_not_finite:
  assumes "square n S" "length w = n" "length cols = n" "length expected_returns = n"
      and "spec_variance S w = 0"
  shows "(\<exists>rc. risk_contributions (RiskParityOptimizer_init (frame_of cols S) budget) (map Fin w) = Inr rc \<and>
             length rc = n \<and> (\<forall>i<n. \<not> is_finite (rc ! i))) \<and>
         (\<exists>v. neg_sharpe_ratio (MarkowitzOptimizer_init expected_returns (frame_of cols S) rate) (map Fin w) = Inr v \<and>
             \<not> is_finite v)"
proof -
  have "rp_Sigma (RiskParityOptimizer_init (frame_of cols S) budget) = frame_of cols S"
    by (simp add: RiskParityOptimizer_init_def)
  from risk_contributions_fin [OF assms(1-3) this] obtain rc where
    rc: "risk_contributions (RiskParityOptimizer_init (frame_of cols S) budget) (map Fin w) = Inr rc"
    "length rc = n"
    "\<forall>i<n. rc ! i = fl_div (Fin (w ! i * (\<Sum>j<n. S ! i ! j * w ! j)))
                           (np_sqrt (Fin (spec_variance S w)))" by blast
  have a: "\<exists>rc. risk_contributions (RiskParityOptimizer_init (frame_of cols S) budget) (map Fin w) = Inr rc \<and>
             length rc = n \<and> (\<forall>i<n. \<not> is_finite (rc ! i))"
    using rc assms(5) by (auto simp: fl_div_zero_not_finite)
  have "Sigma (MarkowitzOptimizer_init expected_returns (frame_of cols S) rate) = frame_of cols S"
    by (simp add: MarkowitzOptimizer_init_def)
  from markowitz_volatility_fin [OF assms(1-3) this]
  have b: "\<exists>v. neg_sharpe_ratio (MarkowitzOptimizer_init expected_returns (frame_of cols S) rate) (map Fin w) = Inr v \<and>
             \<not> is_finite v"
    using assms(2,4,5)
    by (simp add: neg_sharpe_ratio_def portfolio_performance_def np_dot_def
        MarkowitzOptimizer_init_def fl_div_zero_not_finite)
  from a b show ?thesis by (intro conjI)
qed

lemma variance_pos_dim: "0 < spec_variance S w \<Longrightarrow> 0 < length w"
  by (cases w) (simp_all add: spec_variance_def)

lemma uniform_fin: "0 < n \<Longrightarrow> uniform n = map Fin (replicate n (1 / real n))"
  by (simp add: uniform_def)

section \<open>The objectives\<close>

text \<open>
  Claim C7. For finite inputs of matching dimension with positive portfolio variance, the
  risk-parity objective of an optimizer with budget \<open>b\<close> is the sum over the assets of
  \<open>(riskContribution i - b i)\<^sup>2\<close>, with \<open>riskContribution i = w i * (S w) i / volatility\<close>;
  an optimizer constructed without a budget has the uniform budget \<open>1 / n\<close>.
\<close>

theorem rp_objective_formula:
  assumes "square n S" "length w = n" "length cols = n" "length b = n"
      and "0 < spec_variance S w"
      and "rp_Sigma self = frame_of cols S" "risk_budget self = map Fin b"
  shows "rp_objective self (map Fin w) = Inr (Fin (spec_rp_objective S w b)) \<and>
         risk_budget (RiskParityOptimizer_init cov None) = uniform (length (columns cov)) \<and>
         risk_budget (RiskParityOptimizer_init (frame_of cols S) None)
           = map Fin (replicate n (1 / real n)) \<and>
         rp_objective (RiskParityOptimizer_init (frame_of cols S) None) (map Fin w)
           = Inr (Fin (spec_rp_objective S w (replicate n (1 / real n))))"
proof -
  have n: "0 < n" using variance_pos_dim [OF assms(5)] assms(2) by simp
  have bud: "risk_budget (RiskParityOptimizer_init (frame_of cols S) None)
           = map Fin (replicate n (1 / real n))"
    using assms(3) n by (simp add: RiskParityOptimizer_init_def frame_of_def uniform_fin)
  have sig: "rp_Sigma (RiskParityOptimizer_init (frame_of cols S) None) = frame_of cols S"
    by (simp add: RiskParityOptimizer_init_def)
  have len: "length (replicate n (1 / real n)) = n" by simp
  have dflt: "risk_budget (RiskParityOptimizer_init cov None) = uniform (length (columns cov))"
    by (simp add: RiskParityOptimizer_init_def)
  from rp_objective_fin [OF assms(1-4) assms(5) assms(6,7)] dflt bud
    rp_objective_fin [OF assms(1-3) len assms(5) sig bud]
  show ?thesis by (intro conjI)
qed

text \<open>
  Claim C10. The constructor stores a supplied budget unchanged, whatever its entries
  (it has no error branch), and for finite inputs of matching dimension with positive
  variance the objective is computed with that budget as given: nothing requires the
  entries to be non-negative or to sum to one.
\<close>

theorem risk_budget_not_validated:
  assumes "square n S" "length w = n" "length cols = n" "length b = n"
      and "0 < spec_variance S w"
  shows "risk_budget (RiskParityOptimizer_init cov (Some budget)) = budget \<and>
         rp_objective (RiskParityOptimizer_init (frame_of cols S) (Some (map Fin b))) (map Fin w)
           = Inr (Fin (spec_rp_objective S w b))"
proof -
  have bud: "risk_budget (RiskParityOptimizer_init cov (Some budget)) = budget"
    by (simp add: RiskParityOptimizer_init_def)
  have "rp_Sigma (RiskParityOptimizer_init (frame_of cols S) (Some (map Fin b))) = frame_of cols S"
    "risk_budget (RiskParityOptimizer_init (frame_of cols S) (Some (map Fin b))) = map Fin b"
    by (simp_all add: RiskParityOptimizer_init_def)
  from bud rp_objective_fin [OF assms this] show ?thesis by (intro conjI)
qed

lemma sigma_individual_fin:
  assumes "square n S" "length cols = n" "\<forall>i<n. 0 \<le> S ! i ! i"
  shows "sigma_individual (MaxDiversificationOptimizer_init (frame_of cols S))
           = map (\<lambda>i. Fin (sqrt (S ! i ! i))) [0..<n]"
  using assms square_length [OF assms(1)] square_nth [OF assms(1)]
  by (auto simp add: MaxDiversificationOptimizer_init_def np_diag_def frame_of_def not_less)

text \<open>
  Claim C8. For a finite square covariance frame with non-negative diagonal, the
  constructor stores \<open>sigma i = sqrt (S i i)\<close>; for finite weights of the same dimension
  with positive portfolio variance, \<open>_neg_objective\<close> is \<open>- (w \<cdot> sigma) / volatility\<close>.
\<close>

theorem max_div_objective_formula:
  assumes "square n S" "length w = n" "length cols = n"
      and "\<forall>i<n. 0 \<le> S ! i ! i"
      and "0 < spec_variance S w"
  shows "sigma_individual (MaxDiversificationOptimizer_init (frame_of cols S))
           = map (\<lambda>i. Fin (sqrt (S ! i ! i))) [0..<n] \<and>
         neg_objective (MaxDiversificationOptimizer_init (frame_of cols S)) (map Fin w)
           = Inr (Fin (spec_neg_diversification S w))"
proof -
  note sig = sigma_individual_fin [OF assms(1,3,4)]
  have dot: "fl_dot (map Fin w) (map (\<lambda>i. Fin (sqrt (S ! i ! i))) [0..<n])
           = Fin (\<Sum>i<n. w ! i * sqrt (S ! i ! i))"
    by (rule fl_dot_fin_nth) (use assms(2) in simp_all)
  have vol: "md_portfolio_volatility (MaxDiversificationOptimizer_init (frame_of cols S)) (map Fin w)
           = Inr (Fin (sqrt (spec_variance S w)))"
    using left_volatility_fin [OF assms(1-3)] assms(5)
    by (simp add: md_portfolio_volatility_def MaxDiversificationOptimizer_init_def)
  have pos: "sqrt (spec_variance S w) \<noteq> 0" using assms(5) by simp
  have "neg_objective (MaxDiversificationOptimizer_init (frame_of cols S)) (map Fin w)
           = Inr (Fin (spec_neg_diversification S w))"
    using assms(2) pos
    by (simp add: neg_objective_def diversification_ratio_def vol sig np_dot_def dot
        spec_neg_diversification_def spec_volatility_def)
  with sig show ?thesis by (intro conjI)
qed


section \<open>Evaluations on concrete inputs\<close>

lemmas rp_md_obj_eval =
  RiskParityOptimizer_init_def MaxDiversificationOptimizer_init_def MarkowitzOptimizer_init_def
  rp_objective_def risk_contributions_def rp_portfolio_volatility_def md_portfolio_volatility_def
  diversification_ratio_def neg_objective_def quad_form_left_def series_sub_def series_sum_def
  portfolio_performance_def portfolio_volatility_def neg_sharpe_ratio_def
  vec_mat_def mat_vec_def np_dot_def np_diag_def fl_dot_def np_sum_def fl_sub_def uniform_def Let_def

lemmas spec_eval =
  square_def frame_of_def spec_variance_def spec_volatility_def spec_risk_contribution_def
  spec_rp_objective_def spec_neg_diversification_def

text \<open>With the weight 1 on a single asset of variance -1 the radicand is -1: both
  volatility functions return \<open>NaN\<close> as a value, where claim C5 expects a failure.\<close>

theorem volatility_numeric_error_counterexample:
  "spec_variance [[-1]] [1] = -1 \<and>
   portfolio_performance
       (MarkowitzOptimizer_init [Fin 1] \<lparr>columns = [''A''], rows = [[Fin (-1)]]\<rparr> None) (Some [Fin 1])
     = Inr (Fin 1, NaN) \<and>
   md_portfolio_volatility
       (MaxDiversificationOptimizer_init \<lparr>columns = [''A''], rows = [[Fin (-1)]]\<rparr>) [Fin 1]
     = Inr NaN"
  by (simp add: spec_eval rp_md_obj_eval)

theorem volatility_nan_on_negative_radicand_witness:
  "square 2 [[1, 0], [0, -2]] \<and> length [1, 1 :: real] = 2 \<and> length [''A'', ''B''] = 2 \<and>
   spec_variance [[1, 0], [0, -2]] [1, 1] = -1 \<and>
   portfolio_volatility
       (MarkowitzOptimizer_init [Fin 1, Fin 3] (frame_of [''A'', ''B''] [[1, 0], [0, -2]]) None)
       (map Fin [1, 1]) = Inr NaN \<and>
   md_portfolio_volatility
       (MaxDiversificationOptimizer_init (frame_of [''A'', ''B''] [[1, 0], [0, -2]]))
       (map Fin [1, 1]) = Inr NaN"
proof -
  have h: "square 2 [[1, 0], [0, -2]]" "length [1, 1 :: real] = 2" "length [''A'', ''B''] = 2"
    by (simp_all add: square_def)
  have v: "spec_variance [[1, 0], [0, -2]] [1, 1] = -1"
    by (simp add: spec_variance_def)
  from volatility_nan_on_negative_radicand [OF h, of "[Fin 1, Fin 3]" None] h v
  show ?thesis by simp
qed

text \<open>With the weight 1 on a single asset of variance 0 the volatility is 0: the risk
  contribution is computed as \<open>0 / 0\<close> and the negated Sharpe ratio as \<open>-1 / 0\<close>, where
  claim C6 expects the condition to be detected before the division.\<close>

theorem zero_volatility_division_counterexample:
  "spec_variance [[0]] [1] = 0 \<and>
   risk_contributions (RiskParityOptimizer_init \<lparr>columns = [''A''], rows = [[Fin 0]]\<rparr> None) [Fin 1]
     = Inr [NaN] \<and>
   neg_sharpe_ratio (MarkowitzOptimizer_init [Fin 1] \<lparr>columns = [''A''], rows = [[Fin 0]]\<rparr> None) [Fin 1]
     = Inr NInf"
  by (simp add: spec_eval rp_md_obj_eval)

theorem zero_volatility_ratios_not_finite_witness:
  "square 2 [[1, 0], [0, -1]] \<and> length [1, 1 :: real] = 2 \<and> length [''A'', ''B''] = 2 \<and>
   length [Fin 1, Fin 3] = 2 \<and> spec_variance [[1, 0], [0, -1]] [1, 1] = 0 \<and>
   risk_contributions (RiskParityOptimizer_init (frame_of [''A'', ''B''] [[1, 0], [0, -1]]) None)
       (map Fin [1, 1]) = Inr [PInf, NInf] \<and>
   (\<exists>v. neg_sharpe_ratio
           (MarkowitzOptimizer_init [Fin 1, Fin 3] (frame_of [''A'', ''B''] [[1, 0], [0, -1]]) None)
           (map Fin [1, 1]) = Inr v \<and> \<not> is_finite v)"
proof -
  have h: "square 2 [[1, 0], [0, -1]]" "length [1, 1 :: real] = 2" "length [''A'', ''B''] = 2"
    "length [Fin 1, Fin 3] = 2"
    by (simp_all add: square_def)
  have v: "spec_variance [[1, 0], [0, -1]] [1, 1] = 0"
    by (simp add: spec_variance_def)
  have rc: "risk_contributions (RiskParityOptimizer_init (frame_of [''A'', ''B''] [[1, 0], [0, -1]]) None)
       (map Fin [1, 1]) = Inr [PInf, NInf]"
    by (simp add: spec_eval rp_md_obj_eval)
  from zero_volatility_ratios_not_finite [OF h v, of None None, THEN conjunct2] h v rc
  show ?thesis by (intro conjI)
qed

theorem rp_objective_formula_witness:
  "square 2 [[4, 0], [0, 0]] \<and> 0 < spec_variance [[4, 0], [0, 0]] [1 / 2, 1 / 2] \<and>
   spec_rp_objective [[4, 0], [0, 0]] [1 / 2, 1 / 2] [1 / 2, 1 / 2] = 1 / 2 \<and>
   risk_budget (RiskParityOptimizer_init (frame_of [''A'', ''B''] [[4, 0], [0, 0]]) None)
     = [Fin (1 / 2), Fin (1 / 2)] \<and>
   rp_objective (RiskParityOptimizer_init (frame_of [''A'', ''B''] [[4, 0], [0, 0]]) None)
       (map Fin [1 / 2, 1 / 2]) = Inr (Fin (1 / 2))"
proof -
  have h: "square 2 [[4, 0], [0, 0]]" "length [1 / 2, 1 / 2 :: real] = 2" "length [''A'', ''B''] = 2"
    "length [1 / 2, 1 / 2 :: real] = 2"
    by (simp_all add: square_def)
  have v: "spec_variance [[4, 0], [0, 0]] [1 / 2, 1 / 2] = 1"
    by (simp add: spec_variance_def)
  then have p: "0 < spec_variance [[4, 0], [0, 0]] [1 / 2, 1 / 2]" by simp
  have o: "spec_rp_objective [[4, 0], [0, 0]] [1 / 2, 1 / 2] [1 / 2, 1 / 2] = 1 / 2"
    by (simp add: spec_rp_objective_def spec_risk_contribution_def spec_volatility_def v power2_eq_square)
  have r: "replicate 2 (1 / real 2) = [1 / 2, 1 / 2]"
    by (simp add: numeral_2_eq_2)
  have s: "rp_Sigma (RiskParityOptimizer_init (frame_of [''A'', ''B''] [[4, 0], [0, 0]]) None)
             = frame_of [''A'', ''B''] [[4, 0], [0, 0]]"
    "risk_budget (RiskParityOptimizer_init (frame_of [''A'', ''B''] [[4, 0], [0, 0]]) None)
             = map Fin [1 / 2, 1 / 2]"
    by (simp_all add: RiskParityOptimizer_init_def frame_of_def uniform_def)
  note inst = rp_objective_formula [where cov = "frame_of [''A'', ''B''] [[4, 0], [0, 0]]", OF h p s]
  from inst [THEN conjunct2, THEN conjunct2] h(1) p o
  show ?thesis unfolding r o by simp
qed

theorem risk_budget_not_validated_witness:
  "square 2 [[4, 0], [0, 0]] \<and> 0 < spec_variance [[4, 0], [0, 0]] [1 / 2, 1 / 2] \<and>
   sum_list [-1, 5 :: real] \<noteq> 1 \<and>
   risk_budget (RiskParityOptimizer_init (frame_of [''A'', ''B''] [[4, 0], [0, 0]]) (Some [Fin (-1), Fin 5]))
     = [Fin (-1), Fin 5] \<and>
   rp_objective
       (RiskParityOptimizer_init (frame_of [''A'', ''B''] [[4, 0], [0, 0]]) (Some (map Fin [-1, 5])))
       (map Fin [1 / 2, 1 / 2]) = Inr (Fin 29)"
proof -
  have h: "square 2 [[4, 0], [0, 0]]" "length [1 / 2, 1 / 2 :: real] = 2" "length [''A'', ''B''] = 2"
    "length [-1, 5 :: real] = 2"
    by (simp_all add: square_def)
  have v: "spec_variance [[4, 0], [0, 0]] [1 / 2, 1 / 2] = 1"
    by (simp add: spec_variance_def)
  then have p: "0 < spec_variance [[4, 0], [0, 0]] [1 / 2, 1 / 2]" by simp
  have o: "spec_rp_objective [[4, 0], [0, 0]] [1 / 2, 1 / 2] [-1, 5] = 29"
    by (simp add: spec_rp_objective_def spec_risk_contribution_def spec_volatility_def v power2_eq_square)
  from risk_budget_not_validated [OF h p, of "frame_of [''A'', ''B''] [[4, 0], [0, 0]]" "[Fin (-1), Fin 5]"]
    h(1) p
  show ?thesis unfolding o by simp
qed

theorem max_div_objective_formula_witness:
  "square 2 [[4, 0], [0, 0]] \<and> 0 < spec_variance [[4, 0], [0, 0]] [1 / 2, 1 / 2] \<and>
   sigma_individual (MaxDiversificationOptimizer_init (frame_of [''A'', ''B''] [[4, 0], [0, 0]]))
     = [Fin 2, Fin 0] \<and>
   neg_objective (MaxDiversificationOptimizer_init (frame_of [''A'', ''B''] [[4, 0], [0, 0]]))
       (map Fin [1 / 2, 1 / 2]) = Inr (Fin (- 1))"
proof -
  have h: "square 2 [[4, 0], [0, 0]]" "length [1 / 2, 1 / 2 :: real] = 2" "length [''A'', ''B''] = 2"
    by (simp_all add: square_def)
  have d: "\<forall>i<2. 0 \<le> [[4, 0], [0, 0 :: real]] ! i ! i"
    by (auto simp: numeral_2_eq_2 less_Suc_eq)
  have v: "spec_variance [[4, 0], [0, 0]] [1 / 2, 1 / 2] = 1"
    by (simp add: spec_variance_def)
  then have p: "0 < spec_variance [[4, 0], [0, 0]] [1 / 2, 1 / 2]" by simp
  have o: "spec_neg_diversification [[4, 0], [0, 0]] [1 / 2, 1 / 2] = - 1"
    by (simp add: spec_neg_diversification_def spec_volatility_def v)
  have u: "map (\<lambda>i. Fin (sqrt ([[4, 0], [0, 0]] ! i ! i))) [0..<2] = [Fin 2, Fin 0]"
    by (simp add: upt_conv_Cons)
  from max_div_objective_formula [OF h d p] h(1) p
  show ?thesis unfolding o u by simp
qed

end
